theory Spec2Isabelle
  imports Complex_Main "HOL-Library.Multiset" "HOL-Library.Sublist"
begin

section \<open>Bench search: data model\<close>

text \<open>
  The development embeds \<^verbatim>\<open>benchService.search\<close> and \<^verbatim>\<open>calculateDistance\<close> of
  \<^verbatim>\<open>src/services/api.js\<close>. JavaScript numbers are read as real numbers: sums,
  differences and quotients are the exact ones, rounding of IEEE doubles and the values
  NaN and Infinity are outside the model. Integer columns of the database are \<open>int\<close>.
\<close>

text \<open>A row of \<^verbatim>\<open>bench_ratings\<close> as the query selects it.\<close>

record bench_rating =
  view_rating :: int
  comfort_rating :: int

text \<open>
  A pair of coordinates in decimal degrees: the caller's \<^verbatim>\<open>userLocation\<close>, and the two
  coordinate columns every bench row carries.
\<close>

record coords =
  latitude :: real
  longitude :: real

text \<open>
  A row of \<^verbatim>\<open>benches\<close> with its embedded ratings. \<open>bench_ratings\<close> is \<open>None\<close> where
  the response carries \<^verbatim>\<open>null\<close>. \<open>created_at\<close> is the number that
  \<^verbatim>\<open>new Date(bench.created_at)\<close> converts to in a subtraction: milliseconds since the
  epoch.
\<close>

record bench = coords +
  bench_id :: string
  title :: string
  view_type :: string
  created_at :: int
  bench_ratings :: "bench_rating list option"

text \<open>
  The object the map step returns: \<^verbatim>\<open>{...bench, avgRating, distance, ratingsCount}\<close>,
  the row with three more fields. \<open>distance\<close> is \<open>None\<close> for \<^verbatim>\<open>null\<close>.
\<close>

record processed_bench = bench +
  avgRating :: real
  distance :: "real option"
  ratingsCount :: nat

text \<open>
  A destructured parameter with a default distinguishes a missing property from
  \<^verbatim>\<open>null\<close>: the default replaces \<^verbatim>\<open>undefined\<close> only.
\<close>

datatype 'a optional = Undefined | Null | Given 'a

text \<open>
  The argument object of \<^verbatim>\<open>search\<close>. The fields that are only tested for truthiness
  are options, \<open>None\<close> standing for both \<^verbatim>\<open>undefined\<close> and \<^verbatim>\<open>null\<close>.
\<close>

record search_params =
  query :: "string option"
  viewType :: "string option"
  ratingFilter :: "real option"
  sortBy :: "string option"
  userLocation :: "coords option"
  maxDistance :: "real optional"

text \<open>
  The request the query builder has accumulated when it is awaited: the pattern given to
  \<^verbatim>\<open>.ilike('title', ...)\<close> and the value given to \<^verbatim>\<open>.eq('view_type', ...)\<close>, each
  absent when the call was not made.
\<close>

record bench_query =
  ilike_title :: "string option"
  eq_view_type :: "string option"

text \<open>What awaiting the builder yields: \<^verbatim>\<open>{ data, error }\<close>.\<close>

record response =
  data :: "bench list option"
  error :: "string option"

section \<open>Utility functions\<close>

definition toRadians :: "real \<Rightarrow> real" where
  "toRadians degrees = degrees * (pi / 180)"

text \<open>
  \<^verbatim>\<open>Math.atan2(y, x)\<close> on real arguments: the angle of the point \<open>(x, y)\<close> in
  \<open>(-pi, pi]\<close>, and 0 at the origin.
\<close>

definition atan2 :: "real \<Rightarrow> real \<Rightarrow> real" where
  "atan2 y x =
     (if 0 < x then arctan (y / x)
      else if x < 0 then (if 0 \<le> y then arctan (y / x) + pi else arctan (y / x) - pi)
      else if 0 < y then pi / 2
      else if y < 0 then - (pi / 2)
      else 0)"

definition calculateDistance :: "real \<Rightarrow> real \<Rightarrow> real \<Rightarrow> real \<Rightarrow> real" where
  "calculateDistance lat1 lon1 lat2 lon2 =
     (let R = 6371;
          dLat = toRadians (lat2 - lat1);
          dLon = toRadians (lon2 - lon1);
          a = sin (dLat / 2) * sin (dLat / 2) +
              cos (toRadians lat1) * cos (toRadians lat2) *
              sin (dLon / 2) * sin (dLon / 2);
          c = 2 * atan2 (sqrt a) (sqrt (1 - a))
      in R * c)"

section \<open>Library functions the search calls\<close>

text \<open>\<^verbatim>\<open>String.prototype.trim\<close> on a string of bytes.\<close>

definition is_space :: "char \<Rightarrow> bool" where
  "is_space c = (c \<in> set [CHR '' '', CHR 0x09, CHR 0x0A, CHR 0x0B, CHR 0x0C, CHR 0x0D])"

definition trim :: "string \<Rightarrow> string" where
  "trim s = rev (dropWhile is_space (rev (dropWhile is_space s)))"

text \<open>
  \<^verbatim>\<open>Array.prototype.sort(compareFn)\<close>: a stable sort, an element \<open>x\<close> going before
  \<open>y\<close> when \<open>compareFn x y < 0\<close> and elements that compare equal keeping their order.
  It is modelled by insertion from the right end.
\<close>

fun insert_by :: "('a \<Rightarrow> 'a \<Rightarrow> real) \<Rightarrow> 'a \<Rightarrow> 'a list \<Rightarrow> 'a list" where
  "insert_by cmp x [] = [x]"
| "insert_by cmp x (y # ys) =
     (if cmp x y \<le> 0 then x # y # ys else y # insert_by cmp x ys)"

definition array_sort :: "('a \<Rightarrow> 'a \<Rightarrow> real) \<Rightarrow> 'a list \<Rightarrow> 'a list" where
  "array_sort cmp xs = foldr (insert_by cmp) xs []"

text \<open>\<^verbatim>\<open>ToNumber\<close> of a value that is a number or \<^verbatim>\<open>null\<close>.\<close>

definition to_number :: "real option \<Rightarrow> real" where
  "to_number v = (case v of None \<Rightarrow> 0 | Some x \<Rightarrow> x)"

section \<open>benchService.search\<close>

text \<open>The two conditional builder calls before the query is awaited.\<close>

definition build_query :: "search_params \<Rightarrow> bench_query" where
  "build_query p =
     \<lparr> ilike_title =
         (case query p of
            None \<Rightarrow> None
          | Some q \<Rightarrow> if trim q \<noteq> [] then Some (''%'' @ trim q @ ''%'') else None),
       eq_view_type =
         (case viewType p of
            None \<Rightarrow> None
          | Some v \<Rightarrow> if v \<noteq> [] then Some v else None) \<rparr>"

text \<open>The body of the map callback up to \<^verbatim>\<open>avgRating\<close>.\<close>

definition calc_avgRating :: "bench_rating list \<Rightarrow> real" where
  "calc_avgRating ratings =
     (if length ratings > 0 then
        (let totalView = foldl (\<lambda>sum r. sum + view_rating r) 0 ratings;
             totalComfort = foldl (\<lambda>sum r. sum + comfort_rating r) 0 ratings
         in real_of_int (totalView + totalComfort) / real (length ratings * 2))
      else 0)"

definition process_bench :: "coords option \<Rightarrow> bench \<Rightarrow> processed_bench" where
  "process_bench loc b =
     (let ratings = (case bench_ratings b of None \<Rightarrow> [] | Some rs \<Rightarrow> rs);
          avg = calc_avgRating ratings;
          dist = (case loc of
                    None \<Rightarrow> None
                  | Some l \<Rightarrow> Some (calculateDistance (latitude l) (longitude l)
                                       (latitude b) (longitude b)))
      in bench.extend b (processed_bench.fields avg dist (length ratings)))"

text \<open>The destructuring default \<^verbatim>\<open>maxDistance = 10\<close>.\<close>

definition default_maxDistance :: "real optional \<Rightarrow> real option" where
  "default_maxDistance m = (case m of Undefined \<Rightarrow> Some 10 | Null \<Rightarrow> None | Given d \<Rightarrow> Some d)"

definition distance_filter :: "search_params \<Rightarrow> processed_bench list \<Rightarrow> processed_bench list" where
  "distance_filter p bs =
     (case (userLocation p, default_maxDistance (maxDistance p)) of
        (Some l, Some m) \<Rightarrow>
          filter (\<lambda>b. distance b \<noteq> None \<and> to_number (distance b) \<le> m) bs
      | _ \<Rightarrow> bs)"

definition rating_filter :: "search_params \<Rightarrow> processed_bench list \<Rightarrow> processed_bench list" where
  "rating_filter p bs =
     (case ratingFilter p of
        None \<Rightarrow> bs
      | Some r \<Rightarrow> if r \<noteq> 0 then filter (\<lambda>b. avgRating b \<ge> r) bs else bs)"

definition apply_sorting :: "search_params \<Rightarrow> processed_bench list \<Rightarrow> processed_bench list" where
  "apply_sorting p bs =
     (if sortBy p = Some ''distance'' \<and> userLocation p \<noteq> None then
        array_sort (\<lambda>a b. to_number (distance a) - to_number (distance b)) bs
      else if sortBy p = Some ''rating'' then
        array_sort (\<lambda>a b. avgRating b - avgRating a) bs
      else if sortBy p = Some ''recent'' then
        array_sort (\<lambda>a b. real_of_int (created_at b) - real_of_int (created_at a)) bs
      else bs)"

text \<open>
  \<open>search backend p\<close>: \<open>backend\<close> is the awaited database call, \<open>Inl\<close> the error the
  function throws.
\<close>

definition search :: "(bench_query \<Rightarrow> response) \<Rightarrow> search_params \<Rightarrow> string + processed_bench list" where
  "search backend p =
     (let r = backend (build_query p) in
      case error r of
        Some e \<Rightarrow> Inl e
      | None \<Rightarrow>
          (let benches = (case data r of None \<Rightarrow> [] | Some bs \<Rightarrow> bs);
               processedBenches = map (process_bench (userLocation p)) benches
           in Inr (apply_sorting p (rating_filter p (distance_filter p processedBenches)))))"

text \<open>
  The database behind the query, as far as the search relies on it: a table of rows, of
  which an error-free response returns, in table order, those whose title matches the
  \<^verbatim>\<open>ilike\<close> pattern and whose \<^verbatim>\<open>view_type\<close> equals the requested one. The pattern
  matching of the database is the parameter \<open>ilike\<close> (pattern first, then the text).
\<close>

definition table_backend :: "(string \<Rightarrow> string \<Rightarrow> bool) \<Rightarrow> bench list \<Rightarrow> bench_query \<Rightarrow> response" where
  "table_backend ilike tbl q =
     \<lparr> data = Some (filter (\<lambda>b.
          (case ilike_title q of None \<Rightarrow> True | Some pat \<Rightarrow> ilike pat (title b)) \<and>
          (case eq_view_type q of None \<Rightarrow> True | Some v \<Rightarrow> view_type b = v)) tbl),
       error = None \<rparr>"

section \<open>Notions the properties are stated with\<close>


text \<open>
  The range \<^verbatim>\<open>ratingValueSchema\<close> of \<^verbatim>\<open>src/validation/schemas.js\<close> admits for
  a rating: a whole number from 1 to 5.
\<close>

definition ratings_in_range :: "bench \<Rightarrow> bool" where
  "ratings_in_range b =
     (\<forall>r \<in> set (case bench_ratings b of None \<Rightarrow> [] | Some rs \<Rightarrow> rs).
        1 \<le> view_rating r \<and> view_rating r \<le> 5 \<and>
        1 \<le> comfort_rating r \<and> comfort_rating r \<le> 5)"

subsection \<open>Sample data\<close>

definition origin :: coords where
  "origin = \<lparr>latitude = 0, longitude = 0\<rparr>"

definition bench_ocean :: bench where
  "bench_ocean =
     \<lparr>latitude = 0, longitude = 0, bench_id = ''1'', title = ''Ocean Bench'',
      view_type = ''ocean'', created_at = 1000, bench_ratings = Some []\<rparr>"

definition bench_forest :: bench where
  "bench_forest =
     \<lparr>latitude = 0, longitude = 180, bench_id = ''2'', title = ''Forest Bench'',
      view_type = ''forest'', created_at = 3000,
      bench_ratings = Some [\<lparr>view_rating = 5, comfort_rating = 5\<rparr>]\<rparr>"

definition bench_lake :: bench where
  "bench_lake =
     \<lparr>latitude = 0, longitude = 0, bench_id = ''3'', title = ''Lake Bench'',
      view_type = ''lake'', created_at = 2000,
      bench_ratings = Some [\<lparr>view_rating = 5, comfort_rating = 5\<rparr>]\<rparr>"

text \<open>The call \<^verbatim>\<open>search({})\<close>: every property missing.\<close>

definition no_params :: search_params where
  "no_params =
     \<lparr>query = None, viewType = None, ratingFilter = None, sortBy = None,
      userLocation = None, maxDistance = Undefined\<rparr>"

text \<open>A pattern matcher for the sample database: the searches below give no text.\<close>

definition any_title :: "string \<Rightarrow> string \<Rightarrow> bool" where
  "any_title pat t = True"

section \<open>Average rating\<close>

lemma foldl_add_sum_list:
  "foldl (\<lambda>s r. s + f r) (a::int) rs = a + sum_list (map f rs)"
  by (induction rs arbitrary: a) simp_all

text \<open>
  C3. The derived average rating of a record is the pooled mean, the sum of all view
  ratings plus the sum of all comfort ratings divided by twice the number of rating
  entries, when the record has at least one rating, and exactly 0 when it has none; the
  ratings (1,1), (5,5) give 3.
\<close>

theorem avgRating_pooled_mean:
  "avgRating (process_bench loc b) =
     (let rs = (case bench_ratings b of None \<Rightarrow> [] | Some rs \<Rightarrow> rs) in
      if rs = [] then 0
      else (real_of_int (sum_list (map view_rating rs)) +
            real_of_int (sum_list (map comfort_rating rs))) / (2 * real (length rs)))
   \<and> avgRating (process_bench loc
        (b\<lparr>bench_ratings := Some [\<lparr>view_rating = 1, comfort_rating = 1\<rparr>,
                                  \<lparr>view_rating = 5, comfort_rating = 5\<rparr>]\<rparr>)) = 3"
  by (simp add: process_bench_def calc_avgRating_def foldl_add_sum_list Let_def
      bench.defs processed_bench.defs mult.commute split: option.splits)

section \<open>The search as a pipeline of filters and a sort\<close>

lemma insert_by_insort_key:
  fixes k :: "'a \<Rightarrow> 'b::linorder"
  assumes "\<And>x y. (cmp x y \<le> 0) = (k x \<le> k y)"
  shows "insert_by cmp x ys = insort_key k x ys"
  by (induction ys) (simp_all add: assms)

lemma array_sort_sort_key:
  fixes k :: "'a \<Rightarrow> 'b::linorder"
  assumes "\<And>x y. (cmp x y \<le> 0) = (k x \<le> k y)"
  shows "array_sort cmp xs = sort_key k xs"
  unfolding array_sort_def sort_key_def
  by (induction xs) (simp_all add: insert_by_insort_key [OF assms])

lemma apply_sorting_sort_key:
  "apply_sorting p bs =
     (if sortBy p = Some ''distance'' \<and> userLocation p \<noteq> None then
        sort_key (\<lambda>x. to_number (distance x)) bs
      else if sortBy p = Some ''rating'' then sort_key (\<lambda>x. - avgRating x) bs
      else if sortBy p = Some ''recent'' then sort_key (\<lambda>x. - created_at x) bs
      else bs)"
  unfolding apply_sorting_def
  by (auto simp add: array_sort_sort_key [where k = "\<lambda>x. to_number (distance x)"]
      array_sort_sort_key [where k = "\<lambda>x. - avgRating x"]
      array_sort_sort_key [where k = "\<lambda>x. - created_at x"])

lemma filter_apply_sorting:
  "filter P (apply_sorting p bs) = apply_sorting p (filter P bs)"
  by (auto simp add: apply_sorting_sort_key filter_sort)

lemma mset_apply_sorting: "mset (apply_sorting p bs) = mset bs"
  by (simp add: apply_sorting_sort_key)

lemma set_apply_sorting: "set (apply_sorting p bs) = set bs"
  by (simp add: apply_sorting_sort_key)

lemma truncate_process: "bench.truncate (process_bench loc b) = b"
  by (simp add: process_bench_def bench.defs processed_bench.defs Let_def)

lemma distance_process:
  "distance (process_bench loc b) =
     map_option (\<lambda>l. calculateDistance (latitude l) (longitude l) (latitude b) (longitude b)) loc"
  by (simp add: process_bench_def bench.defs processed_bench.defs Let_def split: option.splits)

lemma avgRating_process:
  "avgRating (process_bench loc b) =
     calc_avgRating (case bench_ratings b of None \<Rightarrow> [] | Some rs \<Rightarrow> rs)"
  by (simp add: process_bench_def bench.defs processed_bench.defs Let_def)

lemma ratingsCount_process:
  "ratingsCount (process_bench loc b) =
     length (case bench_ratings b of None \<Rightarrow> [] | Some rs \<Rightarrow> rs)"
  by (simp add: process_bench_def bench.defs processed_bench.defs Let_def)



text \<open>The result of a search whose backend call succeeds.\<close>

lemma search_normal_form:
  "search backend p =
     (case error (backend (build_query p)) of
        Some e \<Rightarrow> Inl e
      | None \<Rightarrow>
          Inr (apply_sorting p (rating_filter p (distance_filter p
                (map (process_bench (userLocation p))
                   (case data (backend (build_query p)) of None \<Rightarrow> [] | Some bs \<Rightarrow> bs))))))"
  by (simp add: search_def Let_def split: option.splits)


section \<open>Great-circle distance\<close>



section \<open>The search on the sample data\<close>

lemma distance_origin_forest: "calculateDistance 0 0 0 180 = 6371 * pi"
  by (simp add: calculateDistance_def toRadians_def atan2_def)

lemma distance_origin_origin: "calculateDistance 0 0 0 0 = 0"
  by (simp add: calculateDistance_def toRadians_def atan2_def)

lemma forest_beyond_10: "\<not> 6371 * pi \<le> (10::real)" "\<not> pi \<le> 0"
  using pi_ge_two by simp_all

lemma process_examples:
  "distance (process_bench (Some origin) bench_forest) = Some (6371 * pi)"
  "distance (process_bench (Some origin) bench_ocean) = Some 0"
  "distance (process_bench (Some origin) bench_lake) = Some 0"
  "distance (process_bench None b) = None"
  "avgRating (process_bench loc bench_ocean) = 0"
  "avgRating (process_bench loc bench_forest) = 5"
  "avgRating (process_bench loc bench_lake) = 5"
  by (simp_all add: distance_process avgRating_process calc_avgRating_def origin_def
      bench_forest_def bench_ocean_def bench_lake_def distance_origin_forest
      distance_origin_origin)


lemmas search_eval =
  search_def table_backend_def build_query_def distance_filter_def rating_filter_def
  apply_sorting_def array_sort_def default_maxDistance_def to_number_def no_params_def
  any_title_def Let_def

text \<open>
  C1, as stated, fails: with no text, category, rating or distance field in the query
  and a user location supplied, the default maximum distance of 10 km applies, and a
  bench half way around the globe is dropped from the result.
\<close>

theorem default_distance_drops_far_bench:
  "search (table_backend any_title [bench_forest]) (no_params\<lparr>userLocation := Some origin\<rparr>)
     = Inr []"
  by (simp add: search_eval process_examples forest_beyond_10)

text \<open>
  C2. Omitting \<open>maxDistance\<close> is the same search as \<open>maxDistance = 10\<close>: with a user
  location present the distance filter keeps the records within 10 km. Passing
  \<open>maxDistance\<close> as null disables the distance filter. On the table of the ocean bench
  (at the user) and the forest bench (20015 km away) the two calls return different
  results: the first drops the forest bench, the second keeps it.
\<close>

theorem maxDistance_undefined_vs_null:
  "search backend (p\<lparr>maxDistance := Undefined\<rparr>) = search backend (p\<lparr>maxDistance := Given 10\<rparr>)
   \<and> distance_filter (p\<lparr>userLocation := Some l, maxDistance := Undefined\<rparr>) bs =
       filter (\<lambda>b. distance b \<noteq> None \<and> to_number (distance b) \<le> 10) bs
   \<and> distance_filter (p\<lparr>maxDistance := Null\<rparr>) bs = bs
   \<and> search (table_backend any_title [bench_ocean, bench_forest])
         (no_params\<lparr>userLocation := Some origin, maxDistance := Undefined\<rparr>)
       = Inr [process_bench (Some origin) bench_ocean]
   \<and> search (table_backend any_title [bench_ocean, bench_forest])
         (no_params\<lparr>userLocation := Some origin, maxDistance := Null\<rparr>)
       = Inr [process_bench (Some origin) bench_ocean, process_bench (Some origin) bench_forest]"
  by (simp add: search_eval process_examples forest_beyond_10 split: option.splits)


section \<open>Searches without filters, searches without a sort key\<close>

lemma distance_filter_filter:
  "distance_filter p bs =
     filter (\<lambda>b. case (userLocation p, default_maxDistance (maxDistance p)) of
                   (Some l, Some m) \<Rightarrow> distance b \<noteq> None \<and> to_number (distance b) \<le> m
                 | _ \<Rightarrow> True) bs"
  by (simp add: distance_filter_def split: option.splits)


lemma table_backend_unfiltered:
  "table_backend ilike tbl \<lparr>ilike_title = None, eq_view_type = None\<rparr> =
     \<lparr>data = Some tbl, error = None\<rparr>"
  by (simp add: table_backend_def)

text \<open>
  C1, amended. For every table and every query without text, category and rating
  filter, in which no user location is supplied or \<open>maxDistance\<close> is null, the search
  returns every record of the table, each with its derived fields, re-ordered only by
  the sort: no record is dropped and none is added. (With a user location and
  \<open>maxDistance\<close> omitted, the default of 10 km filters.)
\<close>

theorem no_filters_pass_through:
  assumes "query p = None" and "viewType p = None" and "ratingFilter p = None"
    and "userLocation p = None \<or> maxDistance p = Null"
  shows "search (table_backend ilike tbl) p =
           Inr (apply_sorting p (map (process_bench (userLocation p)) tbl))
         \<and> mset (map bench.truncate
               (apply_sorting p (map (process_bench (userLocation p)) tbl))) = mset tbl"
proof
  have q: "build_query p = \<lparr>ilike_title = None, eq_view_type = None\<rparr>"
    using assms(1,2) by (simp add: build_query_def)
  have d: "distance_filter p bs = bs" for bs
    using assms(4) by (auto simp add: distance_filter_def default_maxDistance_def split: option.splits)
  have r: "rating_filter p bs = bs" for bs
    using assms(3) by (simp add: rating_filter_def)
  show "search (table_backend ilike tbl) p =
          Inr (apply_sorting p (map (process_bench (userLocation p)) tbl))"
    by (simp add: search_normal_form q table_backend_unfiltered d r)
  have "mset (map bench.truncate (apply_sorting p (map (process_bench (userLocation p)) tbl)))
        = image_mset bench.truncate (mset (apply_sorting p (map (process_bench (userLocation p)) tbl)))"
    by simp
  also have "\<dots> = image_mset bench.truncate (mset (map (process_bench (userLocation p)) tbl))"
    by (simp only: mset_apply_sorting)
  also have "\<dots> = mset (map (\<lambda>b. bench.truncate (process_bench (userLocation p) b)) tbl)"
    by (simp add: multiset.map_comp comp_def)
  also have "\<dots> = mset tbl"
    by (simp add: truncate_process)
  finally show "mset (map bench.truncate
      (apply_sorting p (map (process_bench (userLocation p)) tbl))) = mset tbl" .
qed

text \<open>Three benches, sorted by rating, none dropped.\<close>

theorem no_filters_pass_through_witness:
  "query (no_params\<lparr>sortBy := Some ''rating''\<rparr>) = None
   \<and> viewType (no_params\<lparr>sortBy := Some ''rating''\<rparr>) = None
   \<and> ratingFilter (no_params\<lparr>sortBy := Some ''rating''\<rparr>) = None
   \<and> userLocation (no_params\<lparr>sortBy := Some ''rating''\<rparr>) = None
   \<and> search (table_backend any_title [bench_ocean, bench_forest, bench_lake])
        (no_params\<lparr>sortBy := Some ''rating''\<rparr>)
      = Inr [process_bench None bench_forest, process_bench None bench_lake,
             process_bench None bench_ocean]
   \<and> mset (map bench.truncate [process_bench None bench_forest, process_bench None bench_lake,
             process_bench None bench_ocean]) = mset [bench_ocean, bench_forest, bench_lake]"
  using no_filters_pass_through [of "no_params\<lparr>sortBy := Some ''rating''\<rparr>" any_title
      "[bench_ocean, bench_forest, bench_lake]"]
  by (simp add: no_params_def apply_sorting_def array_sort_def process_examples)



section \<open>The rating filter\<close>

lemma calc_avgRating_nonneg:
  assumes "\<forall>r\<in>set rs. 1 \<le> view_rating r \<and> view_rating r \<le> 5 \<and>
             1 \<le> comfort_rating r \<and> comfort_rating r \<le> 5"
  shows "0 \<le> calc_avgRating rs"
proof -
  have "\<forall>r\<in>set rs. 0 \<le> view_rating r" "\<forall>r\<in>set rs. 0 \<le> comfort_rating r"
    using assms by force+
  then have "0 \<le> sum_list (map view_rating rs)" "0 \<le> sum_list (map comfort_rating rs)"
    by (auto intro!: sum_list_nonneg)
  then show ?thesis
    by (simp add: calc_avgRating_def foldl_add_sum_list Let_def)
qed

lemma calc_avgRating_empty: "calc_avgRating [] = 0"
  by (simp add: calc_avgRating_def)

text \<open>
  C4. For every table whose ratings lie in the range 1 to 5 and every query with a
  minimum average rating \<open>r\<close> set, the search keeps exactly those records, among the
  ones that pass the other filters, whose average rating is at least \<open>r\<close>, in the
  same order: \<open>rs\<close> below is the result of the same search without a rating filter. For
  \<open>r > 0\<close> no record with zero ratings is among the results; without a rating filter
  nothing is removed for its rating. (The code skips the filter for \<open>r = 0\<close>; every
  average is at least 0 then, so the results are the same.)
\<close>

theorem rating_filter_keeps:
  assumes "\<forall>b\<in>set tbl. ratings_in_range b"
  shows "\<exists>rs. search (table_backend ilike tbl) (p\<lparr>ratingFilter := None\<rparr>) = Inr rs
           \<and> search (table_backend ilike tbl) (p\<lparr>ratingFilter := Some r\<rparr>)
               = Inr (filter (\<lambda>x. r \<le> avgRating x) rs)
           \<and> (0 < r \<longrightarrow> (\<forall>x\<in>set (filter (\<lambda>x. r \<le> avgRating x) rs). 0 < ratingsCount x))
           \<and> rating_filter (p\<lparr>ratingFilter := None\<rparr>) bs = bs"
proof -
  let ?pn = "p\<lparr>ratingFilter := None\<rparr>" and ?ps = "p\<lparr>ratingFilter := Some r\<rparr>"
  let ?tb = "table_backend ilike tbl"
  let ?loc = "userLocation p"
  obtain fetched where f: "data (?tb (build_query p)) = Some fetched"
    and sub: "set fetched \<subseteq> set tbl"
    by (auto simp add: table_backend_def)
  have e: "error (?tb (build_query p)) = None"
    by (simp add: table_backend_def)
  let ?M = "map (process_bench ?loc) fetched"
  let ?rs = "apply_sorting p (distance_filter p ?M)"
  have q: "build_query ?pn = build_query p" "build_query ?ps = build_query p"
    by (simp_all add: build_query_def)
  have s: "apply_sorting ?pn = apply_sorting p" "apply_sorting ?ps = apply_sorting p"
    by (auto simp add: apply_sorting_def fun_eq_iff)
  have d: "distance_filter ?pn = distance_filter p" "distance_filter ?ps = distance_filter p"
    by (simp_all add: distance_filter_def fun_eq_iff)
  have rn: "rating_filter ?pn xs = xs" for xs
    by (simp add: rating_filter_def)
  have elems: "\<exists>b\<in>set tbl. x = process_bench ?loc b" if "x \<in> set (distance_filter p ?M)" for x
    using that sub by (auto simp add: distance_filter_filter)
  have nonneg: "0 \<le> avgRating x" if "x \<in> set (distance_filter p ?M)" for x
  proof -
    from elems [OF that] obtain b where b: "b \<in> set tbl" "x = process_bench ?loc b"
      by blast
    with assms have "ratings_in_range b"
      by blast
    then show ?thesis
      unfolding b(2) avgRating_process ratings_in_range_def
      by (rule calc_avgRating_nonneg)
  qed
  have rs: "rating_filter ?ps (distance_filter p ?M) =
      filter (\<lambda>x. r \<le> avgRating x) (distance_filter p ?M)"
  proof (cases "r = 0")
    case True
    then show ?thesis
      using nonneg by (simp add: rating_filter_def filter_id_conv)
  next
    case False
    then show ?thesis
      by (simp add: rating_filter_def)
  qed
  have 1: "search ?tb ?pn = Inr ?rs"
    by (simp add: search_normal_form q s d rn e f)
  have 2: "search ?tb ?ps = Inr (filter (\<lambda>x. r \<le> avgRating x) ?rs)"
    by (simp add: search_normal_form q s d rs e f filter_apply_sorting)
  have 3: "0 < ratingsCount x" if "0 < r" and "x \<in> set (filter (\<lambda>x. r \<le> avgRating x) ?rs)" for x
  proof -
    from that(2) have m: "x \<in> set (distance_filter p ?M)" and a: "r \<le> avgRating x"
      by (simp_all add: set_apply_sorting)
    from elems [OF m] obtain b where b: "x = process_bench ?loc b"
      by blast
    from a that(1) have "0 < avgRating x"
      by simp
    then have "(case bench_ratings b of None \<Rightarrow> [] | Some rs \<Rightarrow> rs) \<noteq> []"
      unfolding b avgRating_process using calc_avgRating_empty by force
    then show ?thesis
      by (simp add: b ratingsCount_process)
  qed
  from 1 2 3 rn show ?thesis
    by blast
qed

text \<open>
  The ocean bench has no ratings: it is returned without a rating filter and dropped
  with the minimum 0.01.
\<close>

theorem rating_filter_keeps_witness:
  "ratings_in_range bench_ocean \<and> ratings_in_range bench_forest
   \<and> search (table_backend any_title [bench_ocean, bench_forest]) (no_params\<lparr>ratingFilter := None\<rparr>)
       = Inr [process_bench None bench_ocean, process_bench None bench_forest]
   \<and> search (table_backend any_title [bench_ocean, bench_forest])
         (no_params\<lparr>ratingFilter := Some (1 / 100)\<rparr>)
       = Inr [process_bench None bench_forest]
   \<and> 0 < ratingsCount (process_bench None bench_forest)
   \<and> ratingsCount (process_bench None bench_ocean) = 0"
proof -
  have h: "\<forall>b\<in>set [bench_ocean, bench_forest]. ratings_in_range b"
    by (simp add: ratings_in_range_def bench_ocean_def bench_forest_def)
  have v: "ratings_in_range bench_ocean" "ratings_in_range bench_forest"
    using h by simp_all
  have c: "ratingsCount (process_bench None bench_forest) = 1"
    "ratingsCount (process_bench None bench_ocean) = 0"
    by (simp_all add: ratingsCount_process bench_ocean_def bench_forest_def)
  from rating_filter_keeps [OF h, of any_title no_params "1 / 100" "[]"] v c show ?thesis
    by (simp add: search_eval process_examples)
qed

section \<open>The final sort\<close>










section \<open>The distance formula in exact arithmetic\<close>

text \<open>
  Over the real numbers, and for latitudes between -90 and 90 degrees, the term \<open>a\<close> of
  the formula lies between 0 and 1, both square roots are taken of non-negative numbers,
  and the distance lies between 0 and \<open>6371 * pi\<close> (about 20015 km). The poles are
  exactly \<open>6371 * pi\<close> apart, and the points 179 and -179 degrees east on the equator
  \<open>6371 * pi / 90\<close> (about 222 km). These are facts about the formula: in double
  precision the sum \<open>a\<close> is rounded, and where it is rounded to a number above 1 the
  program takes the square root of a negative number, which no real-number model shows.
\<close>

lemma haversine_a_range:
  assumes "- (pi / 2) \<le> p1" "p1 \<le> pi / 2" "- (pi / 2) \<le> p2" "p2 \<le> pi / 2"
  shows "0 \<le> sin ((p2 - p1) / 2) * sin ((p2 - p1) / 2) + cos p1 * cos p2 * sin l * sin l"
    and "sin ((p2 - p1) / 2) * sin ((p2 - p1) / 2) + cos p1 * cos p2 * sin l * sin l \<le> 1"
proof -
  have c: "0 \<le> cos p1" "0 \<le> cos p2"
    using assms by (simp_all add: cos_ge_zero)
  then have cc: "0 \<le> cos p1 * cos p2"
    by simp
  have "(sin l)\<^sup>2 + (cos l)\<^sup>2 = 1" "0 \<le> (cos l)\<^sup>2"
    by simp_all
  then have "(sin l)\<^sup>2 \<le> 1"
    by linarith
  then have sl: "0 \<le> sin l * sin l" "sin l * sin l \<le> 1"
    by (simp_all add: power2_eq_square)
  have t: "0 \<le> cos p1 * cos p2 * (sin l * sin l)" "cos p1 * cos p2 * (sin l * sin l) \<le> cos p1 * cos p2"
    using cc sl by (simp_all add: mult_left_le)
  show "0 \<le> sin ((p2 - p1) / 2) * sin ((p2 - p1) / 2) + cos p1 * cos p2 * sin l * sin l"
    using t(1) by (simp add: mult.assoc)
  have "p2 - p1 = 2 * ((p2 - p1) / 2)"
    by (simp add: field_simps)
  then have "cos (p2 - p1) = cos (2 * ((p2 - p1) / 2))"
    by (rule arg_cong)
  also have "\<dots> = 1 - 2 * (sin ((p2 - p1) / 2))\<^sup>2"
    by (rule cos_double_sin)
  finally have "sin ((p2 - p1) / 2) * sin ((p2 - p1) / 2) = (1 - cos (p2 - p1)) / 2"
    by (simp add: power2_eq_square)
  moreover have "cos p1 * cos p2 = (cos (p2 - p1) + cos (p2 + p1)) / 2"
    by (simp add: cos_diff cos_add)
  ultimately have "sin ((p2 - p1) / 2) * sin ((p2 - p1) / 2) + cos p1 * cos p2
      = (1 + cos (p2 + p1)) / 2"
    by (simp add: field_simps)
  also have "\<dots> \<le> 1"
    using cos_le_one [of "p2 + p1"] by simp
  finally show "sin ((p2 - p1) / 2) * sin ((p2 - p1) / 2) + cos p1 * cos p2 * sin l * sin l \<le> 1"
    using t(2) by (simp add: mult.assoc)
qed

lemma atan2_quadrant:
  assumes "0 \<le> y" "0 \<le> x"
  shows "0 \<le> atan2 y x" and "atan2 y x \<le> pi / 2"
proof -
  have "0 \<le> arctan (y / x)" if "0 < x"
    using assms that by (simp add: zero_le_arctan_iff)
  then show "0 \<le> atan2 y x"
    using assms by (auto simp add: atan2_def)
  show "atan2 y x \<le> pi / 2"
    using assms arctan_ubound [of "y / x"] by (auto simp add: atan2_def less_imp_le)
qed

lemma calculateDistance_exact_range:
  assumes "- 90 \<le> lat1" "lat1 \<le> 90" "- 90 \<le> lat2" "lat2 \<le> 90"
  shows "0 \<le> calculateDistance lat1 lon1 lat2 lon2"
    and "calculateDistance lat1 lon1 lat2 lon2 \<le> 6371 * pi"
proof -
  let ?a = "sin (toRadians (lat2 - lat1) / 2) * sin (toRadians (lat2 - lat1) / 2) +
      cos (toRadians lat1) * cos (toRadians lat2) *
      sin (toRadians (lon2 - lon1) / 2) * sin (toRadians (lon2 - lon1) / 2)"
  have b: "- (pi / 2) \<le> toRadians x \<and> toRadians x \<le> pi / 2" if "- 90 \<le> x" "x \<le> 90" for x
  proof -
    have "0 \<le> pi * (x + 90)" "0 \<le> pi * (90 - x)"
      using that by simp_all
    then show ?thesis
      by (simp add: toRadians_def algebra_simps)
  qed
  have r: "- (pi / 2) \<le> toRadians lat1" "toRadians lat1 \<le> pi / 2"
    "- (pi / 2) \<le> toRadians lat2" "toRadians lat2 \<le> pi / 2"
    using assms b by simp_all
  have d: "toRadians (lat2 - lat1) = toRadians lat2 - toRadians lat1"
    by (simp add: toRadians_def left_diff_distrib)
  have a: "0 \<le> ?a" "?a \<le> 1"
    unfolding d using haversine_a_range [OF r] by simp_all
  then have sq: "0 \<le> sqrt ?a" "0 \<le> sqrt (1 - ?a)"
    by simp_all
  have q: "0 \<le> atan2 (sqrt ?a) (sqrt (1 - ?a))" "atan2 (sqrt ?a) (sqrt (1 - ?a)) \<le> pi / 2"
    by (rule atan2_quadrant [OF sq])+
  show "0 \<le> calculateDistance lat1 lon1 lat2 lon2"
    using q(1) by (simp add: calculateDistance_def Let_def)
  show "calculateDistance lat1 lon1 lat2 lon2 \<le> 6371 * pi"
    using q(2) by (simp add: calculateDistance_def Let_def)
qed

lemma calculateDistance_poles: "calculateDistance 90 0 (- 90) 0 = 6371 * pi"
  by (simp add: calculateDistance_def toRadians_def atan2_def)

lemma calculateDistance_date_line: "calculateDistance 0 179 0 (- 179) = 6371 * pi / 90"
proof -
  let ?x = "pi / 180"
  have s: "sin (toRadians (- 179 - 179) / 2) = - sin ?x"
  proof -
    have "toRadians (- 179 - 179) / 2 = - (pi - ?x)"
      by (simp add: toRadians_def)
    then show ?thesis
      by (simp only: sin_minus sin_pi_minus)
  qed
  have z: "toRadians (0 - 0) / 2 = 0" "toRadians 0 = 0"
    by (simp_all add: toRadians_def)
  have p: "0 < sin ?x" "0 < cos ?x"
    by (simp_all add: sin_gt_zero cos_gt_zero_pi)
  have a: "sin (toRadians (0 - 0) / 2) * sin (toRadians (0 - 0) / 2) +
      cos (toRadians 0) * cos (toRadians 0) *
      sin (toRadians (- 179 - 179) / 2) * sin (toRadians (- 179 - 179) / 2) = sin ?x * sin ?x"
    unfolding z s by simp
  have c: "1 - sin ?x * sin ?x = cos ?x * cos ?x"
    using sin_cos_squared_add [of ?x] by (simp add: power2_eq_square algebra_simps)
  have q: "sqrt (sin ?x * sin ?x) = sin ?x" "sqrt (cos ?x * cos ?x) = cos ?x"
    using p by simp_all
  have t: "arctan (sin ?x / cos ?x) = ?x"
    using arctan_tan [of ?x] by (simp add: tan_def)
  have "atan2 (sin ?x) (cos ?x) = ?x"
    using p(2) t by (simp add: atan2_def)
  then show ?thesis
    unfolding calculateDistance_def Let_def a c q by simp
qed

end
